theory Spec2Isabelle
  imports Main
begin

section \<open>The configuration record of aws/config.go\<close>

text \<open>
  Every field of the Go struct \<^verbatim>\<open>Config\<close> is a pointer (or, for \<^verbatim>\<open>Logger\<close>, an
  interface value), so a field is either nil or the address of a cell that holds the
  value. Addresses index the stores of the heap below; \<open>None\<close> is nil.
\<close>

type_synonym addr = nat

record Config =
  Credentials :: "addr option"
  Endpoint :: "addr option"
  Region :: "addr option"
  DisableSSL :: "addr option"
  HTTPClient :: "addr option"
  LogHTTPBody :: "addr option"
  LogLevel :: "addr option"
  Logger :: "addr option"
  MaxRetries :: "addr option"
  DisableParamValidation :: "addr option"
  DisableComputeChecksums :: "addr option"
  S3ForcePathStyle :: "addr option"

text \<open>
  The heap has one store per pointee type: the boxed strings, booleans and integers, the
  \<^verbatim>\<open>Config\<close> structs that are reached through a \<^verbatim>\<open>*Config\<close>, and the objects behind
  the credentials, HTTP client and writer handles, whose contents \<open>'o\<close> this file never
  inspects. A store is a list, an address is an index into it, and allocation appends.
  Go's \<^verbatim>\<open>int\<close> is modelled as \<open>int\<close>: the code stores and copies integers and never
  computes with them.
\<close>

record 'o heap =
  strs :: "string list"
  bools :: "bool list"
  ints :: "int list"
  cfgs :: "Config list"
  objs :: "'o list"

definition load :: "'a list \<Rightarrow> addr \<Rightarrow> 'a option" where
  "load s a = (if a < length s then Some (s ! a) else None)"

text \<open>Reading through a pointer field: nil reads as absent.\<close>

definition rd :: "'a list \<Rightarrow> addr option \<Rightarrow> 'a option" where
  "rd s p = (case p of None \<Rightarrow> None | Some a \<Rightarrow> load s a)"

text \<open>The assignment \<^verbatim>\<open>*p = v\<close>; it faults (\<open>None\<close>) on nil and on an invalid address.\<close>

definition wr :: "'a list \<Rightarrow> addr option \<Rightarrow> 'a \<Rightarrow> 'a list option" where
  "wr s p v =
     (case p of
        None \<Rightarrow> None
      | Some a \<Rightarrow> if a < length s then Some (s[a := v]) else None)"

text \<open>\<^verbatim>\<open>&cfg\<close> for a local that outlives its function: a new struct on the heap.\<close>

definition new_cfg :: "Config \<Rightarrow> 'o heap \<Rightarrow> addr \<times> 'o heap" where
  "new_cfg cfg h = (length (cfgs h), h\<lparr>cfgs := cfgs h @ [cfg]\<rparr>)"

subsection \<open>Copy\<close>

text \<open>
  \<^verbatim>\<open>func (c Config) Copy() Config { dst := c; return dst }\<close>
  The receiver and the result are struct values; the heap is not involved.
\<close>

definition Copy :: "Config \<Rightarrow> Config" where
  "Copy c = (let dst = c in dst)"

subsection \<open>Merge\<close>

text \<open>
  \<^verbatim>\<open>func (c Config) Merge(newcfg *Config) *Config\<close>
  The receiver is a struct value, \<open>newcfg\<close> a pointer that is read through the heap, and
  the result the address of a new struct. A non-nil \<open>newcfg\<close> that is not the address of an
  allocated struct cannot arise in Go; the model returns \<open>None\<close> there.
\<close>

definition Merge :: "Config \<Rightarrow> addr option \<Rightarrow> 'o heap \<Rightarrow> (addr \<times> 'o heap) option" where
  "Merge c newcfg h =
     (let cfg = c in
      case newcfg of
        None \<Rightarrow> Some (new_cfg cfg h)
      | Some p \<Rightarrow>
          (case load (cfgs h) p of
             None \<Rightarrow> None
           | Some n \<Rightarrow>
               (let cfg = (if Credentials n \<noteq> None
                           then cfg\<lparr>Credentials := Credentials n\<rparr> else cfg);
                    cfg = (if Endpoint n \<noteq> None
                           then cfg\<lparr>Endpoint := Endpoint n\<rparr> else cfg);
                    cfg = (if Region n \<noteq> None
                           then cfg\<lparr>Region := Region n\<rparr> else cfg);
                    cfg = (if DisableSSL n \<noteq> None
                           then cfg\<lparr>DisableSSL := DisableSSL n\<rparr> else cfg);
                    cfg = (if HTTPClient n \<noteq> None
                           then cfg\<lparr>HTTPClient := HTTPClient n\<rparr> else cfg);
                    cfg = (if LogHTTPBody n \<noteq> None
                           then cfg\<lparr>LogHTTPBody := LogHTTPBody n\<rparr> else cfg);
                    cfg = (if LogLevel n \<noteq> None
                           then cfg\<lparr>LogLevel := LogLevel n\<rparr> else cfg);
                    cfg = (if Logger n \<noteq> None
                           then cfg\<lparr>Logger := Logger n\<rparr> else cfg);
                    cfg = (if MaxRetries n \<noteq> None
                           then cfg\<lparr>MaxRetries := MaxRetries n\<rparr> else cfg);
                    cfg = (if DisableParamValidation n \<noteq> None
                           then cfg\<lparr>DisableParamValidation := DisableParamValidation n\<rparr>
                           else cfg);
                    cfg = (if DisableComputeChecksums n \<noteq> None
                           then cfg\<lparr>DisableComputeChecksums := DisableComputeChecksums n\<rparr>
                           else cfg);
                    cfg = (if S3ForcePathStyle n \<noteq> None
                           then cfg\<lparr>S3ForcePathStyle := S3ForcePathStyle n\<rparr> else cfg)
                in Some (new_cfg cfg h))))"

text \<open>
  The field of the override as \<open>Merge\<close> reads it: \<open>newcfg.f\<close> for a struct that is
  there, nothing for a nil \<open>newcfg\<close>.
\<close>

definition newcfg_field ::
  "(Config \<Rightarrow> addr option) \<Rightarrow> 'o heap \<Rightarrow> addr option \<Rightarrow> addr option" where
  "newcfg_field f h newcfg = (case rd (cfgs h) newcfg of None \<Rightarrow> None | Some n \<Rightarrow> f n)"

subsection \<open>DefaultConfig\<close>

text \<open>
  Modelled from the spec: the helpers \<^verbatim>\<open>String\<close>, \<^verbatim>\<open>Bool\<close> and \<^verbatim>\<open>Int\<close> of
  package aws, which \<^verbatim>\<open>DefaultConfig\<close> calls and whose file is not among the
  sources. The spec has every scalar field boxed behind an optional wrapper, present
  with the value given: each helper allocates a cell for its argument and returns the
  cell's address. (\<open>Int'\<close> is the source's \<^verbatim>\<open>Int\<close>, a name HOL's syntax has taken.)
\<close>

definition String :: "string \<Rightarrow> 'o heap \<Rightarrow> addr option \<times> 'o heap" where
  "String v h = (Some (length (strs h)), h\<lparr>strs := strs h @ [v]\<rparr>)"

definition Bool :: "bool \<Rightarrow> 'o heap \<Rightarrow> addr option \<times> 'o heap" where
  "Bool v h = (Some (length (bools h)), h\<lparr>bools := bools h @ [v]\<rparr>)"

definition Int' :: "int \<Rightarrow> 'o heap \<Rightarrow> addr option \<times> 'o heap" where
  "Int' v h = (Some (length (ints h)), h\<lparr>ints := ints h @ [v]\<rparr>)"

text \<open>
  What the initialiser takes from outside the file: the package variable
  \<^verbatim>\<open>DefaultChainCredentials\<close> (built by the credentials package), the standard library's
  \<^verbatim>\<open>http.DefaultClient\<close> and \<^verbatim>\<open>os.Stdout\<close>, and the process environment.
  \<^verbatim>\<open>os.Stdout\<close> is a file object; stored in the interface-typed \<^verbatim>\<open>Logger\<close> it is a
  non-nil interface value.
\<close>

record extern =
  DefaultChainCredentials :: "addr option"
  DefaultClient :: "addr option"
  Stdout :: addr
  environ :: "string \<rightharpoonup> string"

text \<open>
  \<^verbatim>\<open>os.Getenv\<close> of the standard library: the value of the variable, or the empty
  string when it is not set. The trace lists the keys read, in order.
\<close>

definition Getenv :: "extern \<Rightarrow> string \<Rightarrow> string list \<Rightarrow> string \<times> string list" where
  "Getenv x key t = ((case environ x key of None \<Rightarrow> '''' | Some v \<Rightarrow> v), t @ [key])"

definition DefaultRetries :: int where
  "DefaultRetries = - 1"

text \<open>
  The initialiser of \<^verbatim>\<open>var DefaultConfig = &Config{...}\<close>. Go evaluates the calls of
  the composite literal in the order they are written; the struct is allocated last.
  The result is the address of the struct, the heap and the trace of environment reads.
\<close>

definition DefaultConfig ::
  "extern \<Rightarrow> 'o heap \<Rightarrow> string list \<Rightarrow> addr \<times> 'o heap \<times> string list" where
  "DefaultConfig x h t =
     (let (endpoint, h) = String '''' h;
          (v, t) = Getenv x ''AWS_REGION'' t;
          (region, h) = String v h;
          (disableSSL, h) = Bool False h;
          (logHTTPBody, h) = Bool False h;
          (logLevel, h) = Int' 0 h;
          (maxRetries, h) = Int' DefaultRetries h;
          (disableParamValidation, h) = Bool False h;
          (disableComputeChecksums, h) = Bool False h;
          (s3ForcePathStyle, h) = Bool False h;
          (r, h) = new_cfg
            \<lparr>Credentials = DefaultChainCredentials x,
             Endpoint = endpoint,
             Region = region,
             DisableSSL = disableSSL,
             HTTPClient = DefaultClient x,
             LogHTTPBody = logHTTPBody,
             LogLevel = logLevel,
             Logger = Some (Stdout x),
             MaxRetries = maxRetries,
             DisableParamValidation = disableParamValidation,
             DisableComputeChecksums = disableComputeChecksums,
             S3ForcePathStyle = s3ForcePathStyle\<rparr> h
      in (r, h, t))"

section \<open>Concrete configurations\<close>

text \<open>\<^verbatim>\<open>Config{}\<close>, the struct with every field nil.\<close>

definition zero_cfg :: Config where
  "zero_cfg =
     \<lparr>Credentials = None, Endpoint = None, Region = None, DisableSSL = None,
      HTTPClient = None, LogHTTPBody = None, LogLevel = None, Logger = None,
      MaxRetries = None, DisableParamValidation = None, DisableComputeChecksums = None,
      S3ForcePathStyle = None\<rparr>"

text \<open>
  A base with only the region set, to \<^verbatim>\<open>us-east-1\<close>, and an override with only the retry
  ceiling set, to 3; the override is the struct at address 0.
\<close>

definition layer_base :: Config where
  "layer_base = zero_cfg\<lparr>Region := Some 0\<rparr>"

definition layer_override :: Config where
  "layer_override = zero_cfg\<lparr>MaxRetries := Some 0\<rparr>"

definition layer_heap :: "unit heap" where
  "layer_heap =
     \<lparr>strs = [''us-east-1''], bools = [], ints = [3], cfgs = [layer_override], objs = []\<rparr>"

definition layer_result :: Config where
  "layer_result = zero_cfg\<lparr>Region := Some 0, MaxRetries := Some 0\<rparr>"

text \<open>
  A base whose scalar fields all hold a value that is not the zero value of its type, and
  an override, at address 0, whose scalar fields all hold the zero value: the empty
  string, \<open>False\<close>, 0.
\<close>

definition falsy_base :: Config where
  "falsy_base =
     \<lparr>Credentials = None, Endpoint = Some 1, Region = Some 1, DisableSSL = Some 1,
      HTTPClient = None, LogHTTPBody = Some 1, LogLevel = Some 1, Logger = None,
      MaxRetries = Some 1, DisableParamValidation = Some 1, DisableComputeChecksums = Some 1,
      S3ForcePathStyle = Some 1\<rparr>"

definition falsy_override :: Config where
  "falsy_override =
     \<lparr>Credentials = None, Endpoint = Some 0, Region = Some 0, DisableSSL = Some 0,
      HTTPClient = None, LogHTTPBody = Some 0, LogLevel = Some 0, Logger = None,
      MaxRetries = Some 0, DisableParamValidation = Some 0, DisableComputeChecksums = Some 0,
      S3ForcePathStyle = Some 0\<rparr>"

definition falsy_heap :: "unit heap" where
  "falsy_heap =
     \<lparr>strs = ['''', ''us-east-1''], bools = [False, True], ints = [0, 2],
      cfgs = [falsy_override], objs = []\<rparr>"

text \<open>A struct whose every field points at cell 0 of its store.\<close>

definition shared_src :: Config where
  "shared_src =
     \<lparr>Credentials = Some 0, Endpoint = Some 0, Region = Some 0, DisableSSL = Some 0,
      HTTPClient = Some 0, LogHTTPBody = Some 0, LogLevel = Some 0, Logger = Some 0,
      MaxRetries = Some 0, DisableParamValidation = Some 0, DisableComputeChecksums = Some 0,
      S3ForcePathStyle = Some 0\<rparr>"

text \<open>
  A second run for \<open>layer_base\<close> to be compared with: a base that has the same region
  and a log level of its own, 2, in a heap that also holds region \<^verbatim>\<open>us-east-1\<close> at
  address 0.
\<close>

definition indep_base :: Config where
  "indep_base = zero_cfg\<lparr>Region := Some 0, LogLevel := Some 1\<rparr>"

definition indep_heap :: "unit heap" where
  "indep_heap =
     \<lparr>strs = [''us-east-1''], bools = [], ints = [3, 2], cfgs = [layer_override],
      objs = []\<rparr>"

text \<open>
  A process at start-up: nothing allocated but the three objects behind the handles, and
  an environment in which no variable is set.
\<close>

definition boot_extern :: extern where
  "boot_extern =
     \<lparr>DefaultChainCredentials = Some 0, DefaultClient = Some 1, Stdout = 2,
      environ = Map.empty\<rparr>"

definition boot_heap :: "string heap" where
  "boot_heap =
     \<lparr>strs = [], bools = [], ints = [], cfgs = [],
      objs = [''credentials'', ''client'', ''stdout'']\<rparr>"

section \<open>The struct that Merge builds\<close>

text \<open>
  The twelve guarded assignments of \<open>Merge\<close>, each written as the value its field ends
  with. \<open>Merge_ptr\<close> below shows that this is what \<open>Merge\<close> allocates.
\<close>

definition merged :: "Config \<Rightarrow> Config \<Rightarrow> Config" where
  "merged c n =
     \<lparr>Credentials = (if Credentials n \<noteq> None then Credentials n else Credentials c),
      Endpoint = (if Endpoint n \<noteq> None then Endpoint n else Endpoint c),
      Region = (if Region n \<noteq> None then Region n else Region c),
      DisableSSL = (if DisableSSL n \<noteq> None then DisableSSL n else DisableSSL c),
      HTTPClient = (if HTTPClient n \<noteq> None then HTTPClient n else HTTPClient c),
      LogHTTPBody = (if LogHTTPBody n \<noteq> None then LogHTTPBody n else LogHTTPBody c),
      LogLevel = (if LogLevel n \<noteq> None then LogLevel n else LogLevel c),
      Logger = (if Logger n \<noteq> None then Logger n else Logger c),
      MaxRetries = (if MaxRetries n \<noteq> None then MaxRetries n else MaxRetries c),
      DisableParamValidation =
        (if DisableParamValidation n \<noteq> None then DisableParamValidation n
         else DisableParamValidation c),
      DisableComputeChecksums =
        (if DisableComputeChecksums n \<noteq> None then DisableComputeChecksums n
         else DisableComputeChecksums c),
      S3ForcePathStyle =
        (if S3ForcePathStyle n \<noteq> None then S3ForcePathStyle n else S3ForcePathStyle c)\<rparr>"

section \<open>Basic facts\<close>

lemma load_Some_less: "load s a = Some v \<Longrightarrow> a < length s"
  by (simp add: load_def split: if_splits)

lemma Merge_nil: "Merge c None h = Some (new_cfg c h)"
  by (simp add: Merge_def)

lemma Merge_invalid: "load (cfgs h) p = None \<Longrightarrow> Merge c (Some p) h = None"
  by (simp add: Merge_def)

lemma guarded_update:
  "\<And>b (r::Config) x.
     (if b then r\<lparr>Credentials := x\<rparr> else r) = r\<lparr>Credentials := if b then x else Credentials r\<rparr>"
  "\<And>b (r::Config) x.
     (if b then r\<lparr>Endpoint := x\<rparr> else r) = r\<lparr>Endpoint := if b then x else Endpoint r\<rparr>"
  "\<And>b (r::Config) x.
     (if b then r\<lparr>Region := x\<rparr> else r) = r\<lparr>Region := if b then x else Region r\<rparr>"
  "\<And>b (r::Config) x.
     (if b then r\<lparr>DisableSSL := x\<rparr> else r) = r\<lparr>DisableSSL := if b then x else DisableSSL r\<rparr>"
  "\<And>b (r::Config) x.
     (if b then r\<lparr>HTTPClient := x\<rparr> else r) = r\<lparr>HTTPClient := if b then x else HTTPClient r\<rparr>"
  "\<And>b (r::Config) x.
     (if b then r\<lparr>LogHTTPBody := x\<rparr> else r) = r\<lparr>LogHTTPBody := if b then x else LogHTTPBody r\<rparr>"
  "\<And>b (r::Config) x.
     (if b then r\<lparr>LogLevel := x\<rparr> else r) = r\<lparr>LogLevel := if b then x else LogLevel r\<rparr>"
  "\<And>b (r::Config) x.
     (if b then r\<lparr>Logger := x\<rparr> else r) = r\<lparr>Logger := if b then x else Logger r\<rparr>"
  "\<And>b (r::Config) x.
     (if b then r\<lparr>MaxRetries := x\<rparr> else r) = r\<lparr>MaxRetries := if b then x else MaxRetries r\<rparr>"
  "\<And>b (r::Config) x.
     (if b then r\<lparr>DisableParamValidation := x\<rparr> else r) =
       r\<lparr>DisableParamValidation := if b then x else DisableParamValidation r\<rparr>"
  "\<And>b (r::Config) x.
     (if b then r\<lparr>DisableComputeChecksums := x\<rparr> else r) =
       r\<lparr>DisableComputeChecksums := if b then x else DisableComputeChecksums r\<rparr>"
  "\<And>b (r::Config) x.
     (if b then r\<lparr>S3ForcePathStyle := x\<rparr> else r) =
       r\<lparr>S3ForcePathStyle := if b then x else S3ForcePathStyle r\<rparr>"
  by simp_all

lemma Merge_ptr:
  assumes "load (cfgs h) p = Some n"
  shows "Merge c (Some p) h = Some (new_cfg (merged c n) h)"
  using assms
  by (cases c)
    (simp add: Merge_def merged_def Let_def guarded_update
      del: not_None_eq split del: if_split cong: if_cong)

lemma merged_idem: "merged (merged c n) n = merged c n"
  by (simp add: merged_def)

lemma Merge_cases:
  assumes "Merge c newcfg h = Some (r, k)"
  obtains
    (nil) "newcfg = None" "r = length (cfgs h)" "k = h\<lparr>cfgs := cfgs h @ [c]\<rparr>"
  | (ptr) p n where "newcfg = Some p" "load (cfgs h) p = Some n" "r = length (cfgs h)"
      "k = h\<lparr>cfgs := cfgs h @ [merged c n]\<rparr>"
proof (cases newcfg)
  case None
  with assms nil show ?thesis
    by (simp add: Merge_nil new_cfg_def)
next
  case (Some p)
  show ?thesis
  proof (cases "load (cfgs h) p")
    case None
    with assms Some show ?thesis
      by (simp add: Merge_invalid)
  next
    case (Some n)
    with assms \<open>newcfg = Some p\<close> ptr show ?thesis
      by (simp add: Merge_ptr new_cfg_def)
  qed
qed

lemma Merge_result:
  assumes "load (cfgs h) p = Some n"
  shows "Merge c (Some p) h = Some (length (cfgs h), h\<lparr>cfgs := cfgs h @ [merged c n]\<rparr>)"
    and "load (cfgs (h\<lparr>cfgs := cfgs h @ [merged c n]\<rparr>)) (length (cfgs h)) = Some (merged c n)"
  using Merge_ptr [OF assms, of c] by (simp_all add: new_cfg_def load_def)

lemma Copy_id: "Copy c = c"
  by (simp add: Copy_def)

lemma wr_rd: "wr s p v = Some s' \<Longrightarrow> rd s' p = Some v"
  by (auto simp: wr_def rd_def load_def split: option.splits if_splits)

lemma wr_other: "a \<noteq> b \<Longrightarrow> wr s (Some b) d = Some s' \<Longrightarrow> load s' a = load s a"
  by (auto simp: wr_def load_def split: if_splits)

lemma layer_Merge:
  "Merge layer_base (Some 0) layer_heap =
     Some (1, layer_heap\<lparr>cfgs := [layer_override, layer_result]\<rparr>)"
proof -
  have "load (cfgs layer_heap) 0 = Some layer_override"
    by (simp add: layer_heap_def load_def)
  from Merge_ptr [OF this, of layer_base] show ?thesis
    by (simp add: new_cfg_def merged_def layer_heap_def layer_base_def layer_override_def
        layer_result_def zero_cfg_def)
qed

lemma falsy_load: "load (cfgs falsy_heap) 0 = Some falsy_override"
  by (simp add: falsy_heap_def load_def)

lemma Merge_field_function:
  assumes "Merge c newcfg h = Some (r, k)"
  shows "\<exists>res. load (cfgs k) r = Some res \<and>
    Credentials res = (if newcfg_field Credentials h newcfg \<noteq> None
      then newcfg_field Credentials h newcfg else Credentials c) \<and>
    Endpoint res = (if newcfg_field Endpoint h newcfg \<noteq> None
      then newcfg_field Endpoint h newcfg else Endpoint c) \<and>
    Region res = (if newcfg_field Region h newcfg \<noteq> None
      then newcfg_field Region h newcfg else Region c) \<and>
    DisableSSL res = (if newcfg_field DisableSSL h newcfg \<noteq> None
      then newcfg_field DisableSSL h newcfg else DisableSSL c) \<and>
    HTTPClient res = (if newcfg_field HTTPClient h newcfg \<noteq> None
      then newcfg_field HTTPClient h newcfg else HTTPClient c) \<and>
    LogHTTPBody res = (if newcfg_field LogHTTPBody h newcfg \<noteq> None
      then newcfg_field LogHTTPBody h newcfg else LogHTTPBody c) \<and>
    LogLevel res = (if newcfg_field LogLevel h newcfg \<noteq> None
      then newcfg_field LogLevel h newcfg else LogLevel c) \<and>
    Logger res = (if newcfg_field Logger h newcfg \<noteq> None
      then newcfg_field Logger h newcfg else Logger c) \<and>
    MaxRetries res = (if newcfg_field MaxRetries h newcfg \<noteq> None
      then newcfg_field MaxRetries h newcfg else MaxRetries c) \<and>
    DisableParamValidation res = (if newcfg_field DisableParamValidation h newcfg \<noteq> None
      then newcfg_field DisableParamValidation h newcfg else DisableParamValidation c) \<and>
    DisableComputeChecksums res = (if newcfg_field DisableComputeChecksums h newcfg \<noteq> None
      then newcfg_field DisableComputeChecksums h newcfg else DisableComputeChecksums c) \<and>
    S3ForcePathStyle res = (if newcfg_field S3ForcePathStyle h newcfg \<noteq> None
      then newcfg_field S3ForcePathStyle h newcfg else S3ForcePathStyle c)"
  using assms
proof (cases rule: Merge_cases)
  case nil
  then show ?thesis
    by (simp add: newcfg_field_def rd_def load_def)
next
  case (ptr p n)
  then show ?thesis
    by (simp add: newcfg_field_def rd_def load_def merged_def del: not_None_eq)
qed

lemma DefaultConfig_eq:
  "DefaultConfig x h t =
    (length (cfgs h),
     h\<lparr>strs := strs h @ ['''', case environ x ''AWS_REGION'' of None \<Rightarrow> '''' | Some v \<Rightarrow> v],
       bools := bools h @ [False, False, False, False, False],
       ints := ints h @ [0, - 1],
       cfgs := cfgs h @
         [\<lparr>Credentials = DefaultChainCredentials x,
           Endpoint = Some (length (strs h)),
           Region = Some (Suc (length (strs h))),
           DisableSSL = Some (length (bools h)),
           HTTPClient = DefaultClient x,
           LogHTTPBody = Some (Suc (length (bools h))),
           LogLevel = Some (length (ints h)),
           Logger = Some (Stdout x),
           MaxRetries = Some (Suc (length (ints h))),
           DisableParamValidation = Some (Suc (Suc (length (bools h)))),
           DisableComputeChecksums = Some (Suc (Suc (Suc (length (bools h))))),
           S3ForcePathStyle = Some (Suc (Suc (Suc (Suc (length (bools h))))))\<rparr>]\<rparr>,
     t @ [''AWS_REGION''])"
  by (simp add: DefaultConfig_def String_def Bool_def Int'_def Getenv_def new_cfg_def
      DefaultRetries_def)

lemma load_append0: "load (s @ x0 # xs) (length s) = Some x0"
  by (simp add: load_def nth_append)

lemma load_append1: "load (s @ x0 # x1 # xs) (Suc (length s)) = Some x1"
  by (simp add: load_def nth_append)

lemma load_append2: "load (s @ x0 # x1 # x2 # xs) (Suc (Suc (length s))) = Some x2"
  by (simp add: load_def nth_append)

lemma load_append3:
  "load (s @ x0 # x1 # x2 # x3 # xs) (Suc (Suc (Suc (length s)))) = Some x3"
  by (simp add: load_def nth_append)

lemma load_append4:
  "load (s @ x0 # x1 # x2 # x3 # x4 # xs) (Suc (Suc (Suc (Suc (length s))))) = Some x4"
  by (simp add: load_def nth_append)

lemmas load_appends = load_append0 load_append1 load_append2 load_append3 load_append4

section \<open>Merge leaves its arguments alone\<close>

text \<open>
  Claim C3. \<open>Merge\<close> mutates neither argument and returns a new instance. Every boxed
  string, boolean and integer and every handle's object is after the call what it was
  before, so each field of the base and of the override reads the same value; every
  struct that was allocated before the call, the override among them (and the base, when
  the caller keeps it at an address, as \<^verbatim>\<open>DefaultConfig\<close> is), is unchanged; and the
  address returned was not allocated before the call, holds a struct after it, and is
  not the override's.
\<close>

theorem Merge_frame:
  assumes "Merge c newcfg h = Some (r, h')"
  shows "strs h' = strs h \<and> bools h' = bools h \<and> ints h' = ints h \<and> objs h' = objs h \<and>
    (\<forall>a. a < length (cfgs h) \<longrightarrow> load (cfgs h') a = load (cfgs h) a) \<and>
    rd (cfgs h') newcfg = rd (cfgs h) newcfg \<and>
    load (cfgs h) r = None \<and> load (cfgs h') r \<noteq> None \<and> newcfg \<noteq> Some r"
  using assms
  by (cases rule: Merge_cases)
    (auto simp: load_def rd_def nth_append split: if_splits)

theorem Merge_frame_witness:
  "Merge layer_base (Some 0) layer_heap =
     Some (1, layer_heap\<lparr>cfgs := [layer_override, layer_result]\<rparr>) \<and>
   strs (layer_heap\<lparr>cfgs := [layer_override, layer_result]\<rparr>) = [''us-east-1''] \<and>
   ints (layer_heap\<lparr>cfgs := [layer_override, layer_result]\<rparr>) = [3] \<and>
   rd (cfgs (layer_heap\<lparr>cfgs := [layer_override, layer_result]\<rparr>)) (Some 0) =
     Some layer_override \<and>
   load (cfgs layer_heap) 1 = None"
  using Merge_frame [OF layer_Merge] layer_Merge
  by (simp add: layer_heap_def rd_def load_def)

section \<open>Merging the same override twice\<close>

text \<open>
  Claim C9. \<open>Merge\<close> is idempotent in its override: when \<open>Merge c newcfg\<close> returns the
  struct \<open>c1\<close>, merging the same override onto \<open>c1\<close> returns, at another address, a
  struct equal to \<open>c1\<close> in every field.
\<close>

theorem Merge_idempotent:
  assumes "Merge c newcfg h = Some (r1, h1)"
  shows "\<exists>c1 r2 h2. load (cfgs h1) r1 = Some c1 \<and> Merge c1 newcfg h1 = Some (r2, h2) \<and>
    load (cfgs h2) r2 = Some c1 \<and> r2 \<noteq> r1"
  using assms
proof (cases rule: Merge_cases)
  case nil
  then show ?thesis
    by (simp add: Merge_nil new_cfg_def load_def nth_append)
next
  case (ptr p n)
  then have "load (cfgs h1) p = Some n"
    by (simp add: load_def nth_append split: if_splits)
  from Merge_ptr [OF this] ptr show ?thesis
    by (simp add: new_cfg_def load_def nth_append merged_idem)
qed

theorem Merge_idempotent_witness:
  "Merge layer_base (Some 0) layer_heap =
     Some (1, layer_heap\<lparr>cfgs := [layer_override, layer_result]\<rparr>) \<and>
   (\<exists>c1 r2 h2.
      load (cfgs (layer_heap\<lparr>cfgs := [layer_override, layer_result]\<rparr>)) 1 = Some c1 \<and>
      Merge c1 (Some 0) (layer_heap\<lparr>cfgs := [layer_override, layer_result]\<rparr>) =
        Some (r2, h2) \<and>
      load (cfgs h2) r2 = Some c1 \<and> r2 \<noteq> 1)"
  using Merge_idempotent [OF layer_Merge] layer_Merge
  by blast

section \<open>Merge, field by field\<close>

text \<open>
  Claim C1. For every base \<open>c\<close> and every override that is there (\<open>newcfg\<close> is the
  address of the struct \<open>n\<close>), \<open>Merge\<close> returns the address of a struct in which every
  one of the twelve fields is the override's field when that is non-nil, and the base's
  field otherwise. No boxed value and no object changes, so each field of the result
  reads the value that the field it was taken from reads.
\<close>

theorem Merge_field_by_field:
  assumes "load (cfgs h) p = Some n"
  shows "\<exists>r h' res. Merge c (Some p) h = Some (r, h') \<and> load (cfgs h') r = Some res \<and>
     Credentials res = (if Credentials n \<noteq> None then Credentials n else Credentials c) \<and>
     Endpoint res = (if Endpoint n \<noteq> None then Endpoint n else Endpoint c) \<and>
     Region res = (if Region n \<noteq> None then Region n else Region c) \<and>
     DisableSSL res = (if DisableSSL n \<noteq> None then DisableSSL n else DisableSSL c) \<and>
     HTTPClient res = (if HTTPClient n \<noteq> None then HTTPClient n else HTTPClient c) \<and>
     LogHTTPBody res = (if LogHTTPBody n \<noteq> None then LogHTTPBody n else LogHTTPBody c) \<and>
     LogLevel res = (if LogLevel n \<noteq> None then LogLevel n else LogLevel c) \<and>
     Logger res = (if Logger n \<noteq> None then Logger n else Logger c) \<and>
     MaxRetries res = (if MaxRetries n \<noteq> None then MaxRetries n else MaxRetries c) \<and>
     DisableParamValidation res =
       (if DisableParamValidation n \<noteq> None then DisableParamValidation n
        else DisableParamValidation c) \<and>
     DisableComputeChecksums res =
       (if DisableComputeChecksums n \<noteq> None then DisableComputeChecksums n
        else DisableComputeChecksums c) \<and>
     S3ForcePathStyle res =
       (if S3ForcePathStyle n \<noteq> None then S3ForcePathStyle n else S3ForcePathStyle c) \<and>
     strs h' = strs h \<and> bools h' = bools h \<and> ints h' = ints h \<and> objs h' = objs h"
proof (intro exI conjI)
  show "Merge c (Some p) h = Some (length (cfgs h), h\<lparr>cfgs := cfgs h @ [merged c n]\<rparr>)"
    by (rule Merge_result [OF assms])
  show "load (cfgs (h\<lparr>cfgs := cfgs h @ [merged c n]\<rparr>)) (length (cfgs h)) = Some (merged c n)"
    by (rule Merge_result [OF assms])
qed (simp_all add: merged_def del: not_None_eq)

theorem Merge_field_by_field_witness:
  "load (cfgs layer_heap) 0 = Some layer_override \<and>
   (\<exists>r h' res. Merge layer_base (Some 0) layer_heap = Some (r, h') \<and>
      load (cfgs h') r = Some res \<and>
      Region res = Some 0 \<and> rd (strs h') (Region res) = Some ''us-east-1'' \<and>
      MaxRetries res = Some 0 \<and> rd (ints h') (MaxRetries res) = Some 3 \<and>
      DisableSSL res = None)"
proof -
  have l: "load (cfgs layer_heap) 0 = Some layer_override"
    by (simp add: layer_heap_def load_def)
  from Merge_field_by_field [OF l, of layer_base] obtain r h' res where
    "Merge layer_base (Some 0) layer_heap = Some (r, h')" "load (cfgs h') r = Some res"
    "Region res = (if Region layer_override \<noteq> None then Region layer_override else Region layer_base)"
    "DisableSSL res = (if DisableSSL layer_override \<noteq> None then DisableSSL layer_override else DisableSSL layer_base)"
    "MaxRetries res = (if MaxRetries layer_override \<noteq> None then MaxRetries layer_override else MaxRetries layer_base)"
    "strs h' = strs layer_heap" "ints h' = ints layer_heap"
    by blast
  then have "Merge layer_base (Some 0) layer_heap = Some (r, h') \<and>
      load (cfgs h') r = Some res \<and>
      Region res = Some 0 \<and> rd (strs h') (Region res) = Some ''us-east-1'' \<and>
      MaxRetries res = Some 0 \<and> rd (ints h') (MaxRetries res) = Some 3 \<and>
      DisableSSL res = None"
    by (simp add: layer_heap_def layer_base_def layer_override_def zero_cfg_def rd_def load_def)
  with l show ?thesis by blast
qed

text \<open>
  Claim C2. An override field that is present and holds the zero value of its type (the
  empty string, \<open>False\<close>, 0) is taken into the result, whatever the base holds: for each
  of the nine scalar fields, when the override's field reads the zero value, so does the
  result's. In particular \<open>DisableSSL\<close> present and \<open>False\<close> in the override, over
  \<open>True\<close> in the base, gives \<open>False\<close>.
\<close>

theorem Merge_falsy_overrides:
  assumes "load (cfgs h) p = Some n"
  shows "\<exists>r h' res. Merge c (Some p) h = Some (r, h') \<and> load (cfgs h') r = Some res \<and>
     (rd (strs h) (Endpoint n) = Some '''' \<longrightarrow> rd (strs h') (Endpoint res) = Some '''') \<and>
     (rd (strs h) (Region n) = Some '''' \<longrightarrow> rd (strs h') (Region res) = Some '''') \<and>
     (rd (bools h) (DisableSSL n) = Some False \<longrightarrow>
        rd (bools h') (DisableSSL res) = Some False) \<and>
     (rd (bools h) (DisableSSL n) = Some False \<and> rd (bools h) (DisableSSL c) = Some True \<longrightarrow>
        rd (bools h') (DisableSSL res) = Some False) \<and>
     (rd (bools h) (LogHTTPBody n) = Some False \<longrightarrow>
        rd (bools h') (LogHTTPBody res) = Some False) \<and>
     (rd (ints h) (LogLevel n) = Some 0 \<longrightarrow> rd (ints h') (LogLevel res) = Some 0) \<and>
     (rd (ints h) (MaxRetries n) = Some 0 \<longrightarrow> rd (ints h') (MaxRetries res) = Some 0) \<and>
     (rd (bools h) (DisableParamValidation n) = Some False \<longrightarrow>
        rd (bools h') (DisableParamValidation res) = Some False) \<and>
     (rd (bools h) (DisableComputeChecksums n) = Some False \<longrightarrow>
        rd (bools h') (DisableComputeChecksums res) = Some False) \<and>
     (rd (bools h) (S3ForcePathStyle n) = Some False \<longrightarrow>
        rd (bools h') (S3ForcePathStyle res) = Some False)"
proof (intro exI conjI)
  show "Merge c (Some p) h = Some (length (cfgs h), h\<lparr>cfgs := cfgs h @ [merged c n]\<rparr>)"
    by (rule Merge_result [OF assms])
  show "load (cfgs (h\<lparr>cfgs := cfgs h @ [merged c n]\<rparr>)) (length (cfgs h)) = Some (merged c n)"
    by (rule Merge_result [OF assms])
qed (auto simp: merged_def rd_def)

theorem Merge_falsy_overrides_witness:
  "load (cfgs falsy_heap) 0 = Some falsy_override \<and>
   rd (bools falsy_heap) (DisableSSL falsy_base) = Some True \<and>
   rd (bools falsy_heap) (DisableSSL falsy_override) = Some False \<and>
   rd (ints falsy_heap) (LogLevel falsy_base) = Some 2 \<and>
   rd (ints falsy_heap) (LogLevel falsy_override) = Some 0 \<and>
   rd (strs falsy_heap) (Region falsy_base) = Some ''us-east-1'' \<and>
   rd (strs falsy_heap) (Region falsy_override) = Some '''' \<and>
   (\<exists>r h' res. Merge falsy_base (Some 0) falsy_heap = Some (r, h') \<and>
      load (cfgs h') r = Some res \<and>
      rd (strs h') (Endpoint res) = Some '''' \<and>
      rd (strs h') (Region res) = Some '''' \<and>
      rd (bools h') (DisableSSL res) = Some False \<and>
      rd (bools h') (LogHTTPBody res) = Some False \<and>
      rd (ints h') (LogLevel res) = Some 0 \<and>
      rd (ints h') (MaxRetries res) = Some 0 \<and>
      rd (bools h') (DisableParamValidation res) = Some False \<and>
      rd (bools h') (DisableComputeChecksums res) = Some False \<and>
      rd (bools h') (S3ForcePathStyle res) = Some False)"
proof -
  have pre:
    "rd (strs falsy_heap) (Endpoint falsy_override) = Some ''''"
    "rd (strs falsy_heap) (Region falsy_override) = Some ''''"
    "rd (bools falsy_heap) (DisableSSL falsy_override) = Some False"
    "rd (bools falsy_heap) (LogHTTPBody falsy_override) = Some False"
    "rd (ints falsy_heap) (LogLevel falsy_override) = Some 0"
    "rd (ints falsy_heap) (MaxRetries falsy_override) = Some 0"
    "rd (bools falsy_heap) (DisableParamValidation falsy_override) = Some False"
    "rd (bools falsy_heap) (DisableComputeChecksums falsy_override) = Some False"
    "rd (bools falsy_heap) (S3ForcePathStyle falsy_override) = Some False"
    by (simp_all add: falsy_heap_def falsy_override_def rd_def load_def)
  have base:
    "rd (bools falsy_heap) (DisableSSL falsy_base) = Some True"
    "rd (ints falsy_heap) (LogLevel falsy_base) = Some 2"
    "rd (strs falsy_heap) (Region falsy_base) = Some ''us-east-1''"
    by (simp_all add: falsy_heap_def falsy_base_def rd_def load_def)
  from Merge_falsy_overrides [OF falsy_load, of falsy_base] pre
  have "\<exists>r h' res. Merge falsy_base (Some 0) falsy_heap = Some (r, h') \<and>
      load (cfgs h') r = Some res \<and>
      rd (strs h') (Endpoint res) = Some '''' \<and>
      rd (strs h') (Region res) = Some '''' \<and>
      rd (bools h') (DisableSSL res) = Some False \<and>
      rd (bools h') (LogHTTPBody res) = Some False \<and>
      rd (ints h') (LogLevel res) = Some 0 \<and>
      rd (ints h') (MaxRetries res) = Some 0 \<and>
      rd (bools h') (DisableParamValidation res) = Some False \<and>
      rd (bools h') (DisableComputeChecksums res) = Some False \<and>
      rd (bools h') (S3ForcePathStyle res) = Some False"
    by simp blast
  with falsy_load pre base show ?thesis
    by simp
qed

section \<open>A nil override\<close>

text \<open>
  Claim C4. \<open>Merge\<close> with a nil override returns a new struct equal to \<open>Copy\<close> of the
  base in every field and changes nothing else. There is no error: \<open>Merge\<close> returns a
  result for nil and for every override that is the address of a struct (Go has no other
  non-nil pointers), and \<open>Copy\<close> is a total function with no error value in its type.
\<close>

theorem Merge_nil_is_Copy:
  "(\<exists>r h'. Merge c None h = Some (r, h') \<and> load (cfgs h') r = Some (Copy c) \<and>
      h' = h\<lparr>cfgs := cfgs h @ [Copy c]\<rparr>) \<and>
   (\<forall>p. load (cfgs h) p \<noteq> None \<longrightarrow> (\<exists>r h'. Merge c (Some p) h = Some (r, h')))"
proof (intro conjI allI impI)
  show "\<exists>r h'. Merge c None h = Some (r, h') \<and> load (cfgs h') r = Some (Copy c) \<and>
      h' = h\<lparr>cfgs := cfgs h @ [Copy c]\<rparr>"
    by (simp add: Merge_nil new_cfg_def Copy_def load_def)
next
  fix p
  assume "load (cfgs h) p \<noteq> None"
  then obtain n where "load (cfgs h) p = Some n"
    by blast
  from Merge_ptr [OF this, of c] show "\<exists>r h'. Merge c (Some p) h = Some (r, h')"
    by (simp add: new_cfg_def)
qed

theorem Merge_nil_is_Copy_witness:
  "(\<exists>r h'. Merge layer_base None layer_heap = Some (r, h') \<and>
      load (cfgs h') r = Some (Copy layer_base) \<and>
      h' = layer_heap\<lparr>cfgs := cfgs layer_heap @ [Copy layer_base]\<rparr>) \<and>
   load (cfgs layer_heap) 0 \<noteq> None \<and>
   (\<exists>r h'. Merge layer_base (Some 0) layer_heap = Some (r, h'))"
proof -
  have l: "load (cfgs layer_heap) 0 \<noteq> None"
    by (simp add: layer_heap_def load_def)
  with Merge_nil_is_Copy [of layer_base layer_heap] show ?thesis
    by blast
qed

section \<open>Copy\<close>

text \<open>
  Claim C5. \<open>Copy c\<close> is equal to \<open>c\<close> in every field. \<open>Copy\<close> takes the struct by
  value and neither reads nor writes the heap, so it has no effect on \<open>c\<close>.
\<close>

theorem Copy_fieldwise:
  "Copy c = c \<and>
   Credentials (Copy c) = Credentials c \<and> Endpoint (Copy c) = Endpoint c \<and>
   Region (Copy c) = Region c \<and> DisableSSL (Copy c) = DisableSSL c \<and>
   HTTPClient (Copy c) = HTTPClient c \<and> LogHTTPBody (Copy c) = LogHTTPBody c \<and>
   LogLevel (Copy c) = LogLevel c \<and> Logger (Copy c) = Logger c \<and>
   MaxRetries (Copy c) = MaxRetries c \<and>
   DisableParamValidation (Copy c) = DisableParamValidation c \<and>
   DisableComputeChecksums (Copy c) = DisableComputeChecksums c \<and>
   S3ForcePathStyle (Copy c) = S3ForcePathStyle c"
  by (simp add: Copy_def)

text \<open>
  Claim C6, as stated: the scalar fields of the copy have storage of their own, so that
  changing one on the copy does not show in the source. It fails: the copy's \<open>Region\<close> is
  the source's pointer, and the assignment \<^verbatim>\<open>*dst.Region = "eu-west-1"\<close> changes the
  region that the source reads from \<^verbatim>\<open>us-east-1\<close> to \<^verbatim>\<open>eu-west-1\<close>.
\<close>

theorem Copy_scalar_storage_counterexample:
  "Region (Copy shared_src) = Region shared_src \<and>
   rd [''us-east-1''] (Region shared_src) = Some ''us-east-1'' \<and>
   wr [''us-east-1''] (Region (Copy shared_src)) ''eu-west-1'' = Some [''eu-west-1''] \<and>
   rd [''eu-west-1''] (Region shared_src) = Some ''eu-west-1''"
  by (simp add: Copy_def shared_src_def rd_def wr_def load_def)

text \<open>
  Claim C6, amended. The copy is shallow in every field: each of the twelve fields of
  \<open>Copy c\<close>, boxed scalar and handle alike, is the same pointer as in \<open>c\<close>, so a value
  written through any field of the copy is the value read through the same field of
  \<open>c\<close>. Only the struct itself is the copy's own: when the source is the struct at
  address \<open>a\<close> and the copy, changed in any way \<open>g\<close> (a field pointed at another box,
  say), is stored at another address \<open>b\<close>, the struct at \<open>a\<close> is still \<open>c\<close> and the
  struct at \<open>b\<close> is \<open>c\<close> with that change.
\<close>

theorem Copy_shares_storage:
  "Credentials (Copy c) = Credentials c \<and> Endpoint (Copy c) = Endpoint c \<and>
   Region (Copy c) = Region c \<and> DisableSSL (Copy c) = DisableSSL c \<and>
   HTTPClient (Copy c) = HTTPClient c \<and> LogHTTPBody (Copy c) = LogHTTPBody c \<and>
   LogLevel (Copy c) = LogLevel c \<and> Logger (Copy c) = Logger c \<and>
   MaxRetries (Copy c) = MaxRetries c \<and>
   DisableParamValidation (Copy c) = DisableParamValidation c \<and>
   DisableComputeChecksums (Copy c) = DisableComputeChecksums c \<and>
   S3ForcePathStyle (Copy c) = S3ForcePathStyle c \<and>
   (wr ss (Endpoint (Copy c)) sv = Some ss' \<longrightarrow> rd ss' (Endpoint c) = Some sv) \<and>
   (wr ss (Region (Copy c)) sv = Some ss' \<longrightarrow> rd ss' (Region c) = Some sv) \<and>
   (wr bs (DisableSSL (Copy c)) bv = Some bs' \<longrightarrow> rd bs' (DisableSSL c) = Some bv) \<and>
   (wr bs (LogHTTPBody (Copy c)) bv = Some bs' \<longrightarrow> rd bs' (LogHTTPBody c) = Some bv) \<and>
   (wr ns (LogLevel (Copy c)) nv = Some ns' \<longrightarrow> rd ns' (LogLevel c) = Some nv) \<and>
   (wr ns (MaxRetries (Copy c)) nv = Some ns' \<longrightarrow> rd ns' (MaxRetries c) = Some nv) \<and>
   (wr bs (DisableParamValidation (Copy c)) bv = Some bs' \<longrightarrow>
      rd bs' (DisableParamValidation c) = Some bv) \<and>
   (wr bs (DisableComputeChecksums (Copy c)) bv = Some bs' \<longrightarrow>
      rd bs' (DisableComputeChecksums c) = Some bv) \<and>
   (wr bs (S3ForcePathStyle (Copy c)) bv = Some bs' \<longrightarrow>
      rd bs' (S3ForcePathStyle c) = Some bv) \<and>
   (wr hs (Credentials (Copy c)) hv = Some hs' \<longrightarrow> rd hs' (Credentials c) = Some hv) \<and>
   (wr hs (HTTPClient (Copy c)) hv = Some hs' \<longrightarrow> rd hs' (HTTPClient c) = Some hv) \<and>
   (wr hs (Logger (Copy c)) hv = Some hs' \<longrightarrow> rd hs' (Logger c) = Some hv) \<and>
   (load cs a = Some c \<and> a \<noteq> b \<and> wr cs (Some b) (g (Copy c)) = Some cs' \<longrightarrow>
      load cs' a = Some c \<and> load cs' b = Some (g c))"
proof -
  have slot: "load cs a = Some c \<and> a \<noteq> b \<and> wr cs (Some b) (g c) = Some cs' \<longrightarrow>
      load cs' a = Some c \<and> load cs' b = Some (g c)"
    by (auto simp: wr_def load_def split: if_splits)
  then show ?thesis
    by (simp add: Copy_id wr_rd)
qed

theorem Copy_shares_storage_witness:
  "Region (Copy shared_src) = Some 0 \<and> Region shared_src = Some 0 \<and>
   Logger (Copy shared_src) = Some 0 \<and> Logger shared_src = Some 0 \<and>
   wr [''us-east-1''] (Endpoint (Copy shared_src)) ''x'' = Some [''x''] \<and>
   rd [''x''] (Endpoint shared_src) = Some ''x'' \<and>
   wr [''us-east-1''] (Region (Copy shared_src)) ''x'' = Some [''x''] \<and>
   rd [''x''] (Region shared_src) = Some ''x'' \<and>
   wr [True] (DisableSSL (Copy shared_src)) False = Some [False] \<and>
   rd [False] (DisableSSL shared_src) = Some False \<and>
   wr [True] (LogHTTPBody (Copy shared_src)) False = Some [False] \<and>
   rd [False] (LogHTTPBody shared_src) = Some False \<and>
   wr [2] (LogLevel (Copy shared_src)) (5::int) = Some [5] \<and>
   rd [5::int] (LogLevel shared_src) = Some 5 \<and>
   wr [2] (MaxRetries (Copy shared_src)) (5::int) = Some [5] \<and>
   rd [5::int] (MaxRetries shared_src) = Some 5 \<and>
   wr [True] (DisableParamValidation (Copy shared_src)) False = Some [False] \<and>
   rd [False] (DisableParamValidation shared_src) = Some False \<and>
   wr [True] (DisableComputeChecksums (Copy shared_src)) False = Some [False] \<and>
   rd [False] (DisableComputeChecksums shared_src) = Some False \<and>
   wr [True] (S3ForcePathStyle (Copy shared_src)) False = Some [False] \<and>
   rd [False] (S3ForcePathStyle shared_src) = Some False \<and>
   wr [''stdout''] (Credentials (Copy shared_src)) ''log line'' = Some [''log line''] \<and>
   rd [''log line''] (Credentials shared_src) = Some ''log line'' \<and>
   wr [''stdout''] (HTTPClient (Copy shared_src)) ''log line'' = Some [''log line''] \<and>
   rd [''log line''] (HTTPClient shared_src) = Some ''log line'' \<and>
   wr [''stdout''] (Logger (Copy shared_src)) ''log line'' = Some [''log line''] \<and>
   rd [''log line''] (Logger shared_src) = Some ''log line'' \<and>
   load [shared_src, shared_src] 0 = Some shared_src \<and>
   wr [shared_src, shared_src] (Some 1) ((Copy shared_src)\<lparr>Region := Some 1\<rparr>) =
     Some [shared_src, shared_src\<lparr>Region := Some 1\<rparr>] \<and>
   load [shared_src, shared_src\<lparr>Region := Some 1\<rparr>] 0 = Some shared_src \<and>
   load [shared_src, shared_src\<lparr>Region := Some 1\<rparr>] 1 =
     Some (shared_src\<lparr>Region := Some 1\<rparr>)"
  using Copy_shares_storage [of shared_src "[''us-east-1'']" "''x''" "[''x'']"
      "[True]" False "[False]" "[2]" 5 "[5]" "[''stdout'']" "''log line''" "[''log line'']"
      "[shared_src, shared_src]" 0 1 "\<lambda>d. d\<lparr>Region := Some 1\<rparr>"
      "[shared_src, shared_src\<lparr>Region := Some 1\<rparr>]"]
  by (simp add: Copy_def shared_src_def wr_def load_def)

section \<open>Fields do not interfere\<close>

text \<open>
  Claim C10. \<open>Merge\<close> treats the fields independently. Take any two runs, with their
  own bases, overrides and heaps. For each field \<open>f\<close>: when the two bases agree on \<open>f\<close>
  and the two overrides agree on \<open>f\<close> (a nil override has no field set), the two results
  agree on \<open>f\<close>, whatever the other fields hold.
\<close>

theorem Merge_field_independent:
  assumes "Merge c1 nc1 h1 = Some (r1, k1)" and "Merge c2 nc2 h2 = Some (r2, k2)"
  shows "\<exists>res1 res2. load (cfgs k1) r1 = Some res1 \<and> load (cfgs k2) r2 = Some res2 \<and>
    (Credentials c1 = Credentials c2 \<and>
       newcfg_field Credentials h1 nc1 = newcfg_field Credentials h2 nc2 \<longrightarrow>
     Credentials res1 = Credentials res2) \<and>
    (Endpoint c1 = Endpoint c2 \<and>
       newcfg_field Endpoint h1 nc1 = newcfg_field Endpoint h2 nc2 \<longrightarrow>
     Endpoint res1 = Endpoint res2) \<and>
    (Region c1 = Region c2 \<and>
       newcfg_field Region h1 nc1 = newcfg_field Region h2 nc2 \<longrightarrow>
     Region res1 = Region res2) \<and>
    (DisableSSL c1 = DisableSSL c2 \<and>
       newcfg_field DisableSSL h1 nc1 = newcfg_field DisableSSL h2 nc2 \<longrightarrow>
     DisableSSL res1 = DisableSSL res2) \<and>
    (HTTPClient c1 = HTTPClient c2 \<and>
       newcfg_field HTTPClient h1 nc1 = newcfg_field HTTPClient h2 nc2 \<longrightarrow>
     HTTPClient res1 = HTTPClient res2) \<and>
    (LogHTTPBody c1 = LogHTTPBody c2 \<and>
       newcfg_field LogHTTPBody h1 nc1 = newcfg_field LogHTTPBody h2 nc2 \<longrightarrow>
     LogHTTPBody res1 = LogHTTPBody res2) \<and>
    (LogLevel c1 = LogLevel c2 \<and>
       newcfg_field LogLevel h1 nc1 = newcfg_field LogLevel h2 nc2 \<longrightarrow>
     LogLevel res1 = LogLevel res2) \<and>
    (Logger c1 = Logger c2 \<and>
       newcfg_field Logger h1 nc1 = newcfg_field Logger h2 nc2 \<longrightarrow>
     Logger res1 = Logger res2) \<and>
    (MaxRetries c1 = MaxRetries c2 \<and>
       newcfg_field MaxRetries h1 nc1 = newcfg_field MaxRetries h2 nc2 \<longrightarrow>
     MaxRetries res1 = MaxRetries res2) \<and>
    (DisableParamValidation c1 = DisableParamValidation c2 \<and>
       newcfg_field DisableParamValidation h1 nc1 =
         newcfg_field DisableParamValidation h2 nc2 \<longrightarrow>
     DisableParamValidation res1 = DisableParamValidation res2) \<and>
    (DisableComputeChecksums c1 = DisableComputeChecksums c2 \<and>
       newcfg_field DisableComputeChecksums h1 nc1 =
         newcfg_field DisableComputeChecksums h2 nc2 \<longrightarrow>
     DisableComputeChecksums res1 = DisableComputeChecksums res2) \<and>
    (S3ForcePathStyle c1 = S3ForcePathStyle c2 \<and>
       newcfg_field S3ForcePathStyle h1 nc1 = newcfg_field S3ForcePathStyle h2 nc2 \<longrightarrow>
     S3ForcePathStyle res1 = S3ForcePathStyle res2)"
proof -
  from Merge_field_function [OF assms(1)] obtain res1 where 1:
    "load (cfgs k1) r1 = Some res1"
    "Credentials res1 = (if newcfg_field Credentials h1 nc1 \<noteq> None
      then newcfg_field Credentials h1 nc1 else Credentials c1)"
    "Endpoint res1 = (if newcfg_field Endpoint h1 nc1 \<noteq> None
      then newcfg_field Endpoint h1 nc1 else Endpoint c1)"
    "Region res1 = (if newcfg_field Region h1 nc1 \<noteq> None
      then newcfg_field Region h1 nc1 else Region c1)"
    "DisableSSL res1 = (if newcfg_field DisableSSL h1 nc1 \<noteq> None
      then newcfg_field DisableSSL h1 nc1 else DisableSSL c1)"
    "HTTPClient res1 = (if newcfg_field HTTPClient h1 nc1 \<noteq> None
      then newcfg_field HTTPClient h1 nc1 else HTTPClient c1)"
    "LogHTTPBody res1 = (if newcfg_field LogHTTPBody h1 nc1 \<noteq> None
      then newcfg_field LogHTTPBody h1 nc1 else LogHTTPBody c1)"
    "LogLevel res1 = (if newcfg_field LogLevel h1 nc1 \<noteq> None
      then newcfg_field LogLevel h1 nc1 else LogLevel c1)"
    "Logger res1 = (if newcfg_field Logger h1 nc1 \<noteq> None
      then newcfg_field Logger h1 nc1 else Logger c1)"
    "MaxRetries res1 = (if newcfg_field MaxRetries h1 nc1 \<noteq> None
      then newcfg_field MaxRetries h1 nc1 else MaxRetries c1)"
    "DisableParamValidation res1 = (if newcfg_field DisableParamValidation h1 nc1 \<noteq> None
      then newcfg_field DisableParamValidation h1 nc1 else DisableParamValidation c1)"
    "DisableComputeChecksums res1 = (if newcfg_field DisableComputeChecksums h1 nc1 \<noteq> None
      then newcfg_field DisableComputeChecksums h1 nc1 else DisableComputeChecksums c1)"
    "S3ForcePathStyle res1 = (if newcfg_field S3ForcePathStyle h1 nc1 \<noteq> None
      then newcfg_field S3ForcePathStyle h1 nc1 else S3ForcePathStyle c1)"
    by blast
  from Merge_field_function [OF assms(2)] obtain res2 where 2:
    "load (cfgs k2) r2 = Some res2"
    "Credentials res2 = (if newcfg_field Credentials h2 nc2 \<noteq> None
      then newcfg_field Credentials h2 nc2 else Credentials c2)"
    "Endpoint res2 = (if newcfg_field Endpoint h2 nc2 \<noteq> None
      then newcfg_field Endpoint h2 nc2 else Endpoint c2)"
    "Region res2 = (if newcfg_field Region h2 nc2 \<noteq> None
      then newcfg_field Region h2 nc2 else Region c2)"
    "DisableSSL res2 = (if newcfg_field DisableSSL h2 nc2 \<noteq> None
      then newcfg_field DisableSSL h2 nc2 else DisableSSL c2)"
    "HTTPClient res2 = (if newcfg_field HTTPClient h2 nc2 \<noteq> None
      then newcfg_field HTTPClient h2 nc2 else HTTPClient c2)"
    "LogHTTPBody res2 = (if newcfg_field LogHTTPBody h2 nc2 \<noteq> None
      then newcfg_field LogHTTPBody h2 nc2 else LogHTTPBody c2)"
    "LogLevel res2 = (if newcfg_field LogLevel h2 nc2 \<noteq> None
      then newcfg_field LogLevel h2 nc2 else LogLevel c2)"
    "Logger res2 = (if newcfg_field Logger h2 nc2 \<noteq> None
      then newcfg_field Logger h2 nc2 else Logger c2)"
    "MaxRetries res2 = (if newcfg_field MaxRetries h2 nc2 \<noteq> None
      then newcfg_field MaxRetries h2 nc2 else MaxRetries c2)"
    "DisableParamValidation res2 = (if newcfg_field DisableParamValidation h2 nc2 \<noteq> None
      then newcfg_field DisableParamValidation h2 nc2 else DisableParamValidation c2)"
    "DisableComputeChecksums res2 = (if newcfg_field DisableComputeChecksums h2 nc2 \<noteq> None
      then newcfg_field DisableComputeChecksums h2 nc2 else DisableComputeChecksums c2)"
    "S3ForcePathStyle res2 = (if newcfg_field S3ForcePathStyle h2 nc2 \<noteq> None
      then newcfg_field S3ForcePathStyle h2 nc2 else S3ForcePathStyle c2)"
    by blast
  show ?thesis
    by (intro exI conjI impI, rule 1(1), rule 2(1)) (simp_all only: 1 2)
qed

theorem Merge_field_independent_witness:
  "Merge layer_base (Some 0) layer_heap =
     Some (1, layer_heap\<lparr>cfgs := [layer_override, layer_result]\<rparr>) \<and>
   Merge indep_base None indep_heap =
     Some (1, indep_heap\<lparr>cfgs := [layer_override, indep_base]\<rparr>) \<and>
   Region layer_base = Region indep_base \<and>
   newcfg_field Region layer_heap (Some 0) = newcfg_field Region indep_heap None \<and>
   LogLevel layer_base \<noteq> LogLevel indep_base \<and>
   newcfg_field MaxRetries layer_heap (Some 0) \<noteq> newcfg_field MaxRetries indep_heap None \<and>
   (\<exists>res1 res2.
      load (cfgs (layer_heap\<lparr>cfgs := [layer_override, layer_result]\<rparr>)) 1 = Some res1 \<and>
      load (cfgs (indep_heap\<lparr>cfgs := [layer_override, indep_base]\<rparr>)) 1 = Some res2 \<and>
      Region res1 = Region res2)"
proof -
  have m: "Merge indep_base None indep_heap =
     Some (1, indep_heap\<lparr>cfgs := [layer_override, indep_base]\<rparr>)"
    by (simp add: Merge_nil new_cfg_def indep_heap_def)
  have pre: "Region layer_base = Region indep_base"
    "newcfg_field Region layer_heap (Some 0) = newcfg_field Region indep_heap None"
    "LogLevel layer_base \<noteq> LogLevel indep_base"
    "newcfg_field MaxRetries layer_heap (Some 0) \<noteq> newcfg_field MaxRetries indep_heap None"
    by (simp_all add: layer_base_def indep_base_def zero_cfg_def newcfg_field_def rd_def
        load_def layer_heap_def layer_override_def)
  from Merge_field_independent [OF layer_Merge m] pre(1,2)
  have "\<exists>res1 res2.
      load (cfgs (layer_heap\<lparr>cfgs := [layer_override, layer_result]\<rparr>)) 1 = Some res1 \<and>
      load (cfgs (indep_heap\<lparr>cfgs := [layer_override, indep_base]\<rparr>)) 1 = Some res2 \<and>
      Region res1 = Region res2"
    by (elim exE conjE) (intro exI conjI, assumption, assumption, simp)
  with layer_Merge m pre show ?thesis
    by blast
qed

section \<open>The default configuration\<close>

text \<open>
  Claim C7. Building the default configuration reads the environment once, the variable
  \<^verbatim>\<open>AWS_REGION\<close>, and the region field of the result is present and holds what was
  read: the empty string when the variable is not set. The initialiser always returns a
  struct; it has no error.
\<close>

theorem DefaultConfig_region:
  "\<exists>r h' t' cfg. DefaultConfig x h t = (r, h', t') \<and> load (cfgs h') r = Some cfg \<and>
     t' = t @ [''AWS_REGION''] \<and>
     Region cfg \<noteq> None \<and>
     rd (strs h') (Region cfg) =
       Some (case environ x ''AWS_REGION'' of None \<Rightarrow> '''' | Some v \<Rightarrow> v) \<and>
     (environ x ''AWS_REGION'' = None \<longrightarrow> rd (strs h') (Region cfg) = Some '''')"
  unfolding DefaultConfig_eq
  by (simp add: rd_def load_appends)

theorem DefaultConfig_region_witness:
  "environ boot_extern ''AWS_REGION'' = None \<and>
   (\<exists>r h' t' cfg. DefaultConfig boot_extern boot_heap [] = (r, h', t') \<and>
      load (cfgs h') r = Some cfg \<and> t' = [''AWS_REGION''] \<and>
      Region cfg \<noteq> None \<and> rd (strs h') (Region cfg) = Some '''')"
proof -
  have e: "environ boot_extern ''AWS_REGION'' = None"
    by (simp add: boot_extern_def)
  with DefaultConfig_region [of boot_extern boot_heap "[]"] show ?thesis
    by simp
qed

text \<open>
  Claim C8. The default configuration has the standard output stream as its logger, a
  log level that is present and 0, a retry ceiling that is present and \<open>-1\<close>, an endpoint
  that is present and the empty string, and each of the five boolean switches present
  and \<open>False\<close>.
\<close>

theorem DefaultConfig_defaults:
  "\<exists>r h' t' cfg. DefaultConfig x h t = (r, h', t') \<and> load (cfgs h') r = Some cfg \<and>
     Logger cfg = Some (Stdout x) \<and>
     rd (ints h') (LogLevel cfg) = Some 0 \<and>
     rd (ints h') (MaxRetries cfg) = Some (- 1) \<and>
     rd (strs h') (Endpoint cfg) = Some '''' \<and>
     rd (bools h') (DisableSSL cfg) = Some False \<and>
     rd (bools h') (LogHTTPBody cfg) = Some False \<and>
     rd (bools h') (DisableParamValidation cfg) = Some False \<and>
     rd (bools h') (DisableComputeChecksums cfg) = Some False \<and>
     rd (bools h') (S3ForcePathStyle cfg) = Some False"
  unfolding DefaultConfig_eq
  by (simp add: rd_def load_appends)

end
